theory Spec2Isabelle
  imports Main "HOL-Library.Sublist" "HOL-Library.AList"
begin

section \<open>Strings\<close>

text \<open>
  A Python \<open>str\<close> is modelled as a \<open>string\<close> holding its UTF-8 bytes. The program itself only
  concatenates strings, tests ASCII prefixes and suffixes, searches ASCII substrings and
  replaces ASCII substrings; these agree on code points and on UTF-8 bytes. What depends on
  Unicode (\<open>lower\<close>, \<open>strip\<close>, splitting at whitespace) is taken from the library.
\<close>

definition startswith :: "string \<Rightarrow> string \<Rightarrow> bool" where
  "startswith s p = prefix p s"

definition endswith :: "string \<Rightarrow> string \<Rightarrow> bool" where
  "endswith s p = suffix p s"

text \<open>The single quote and the double quote, as strings.\<close>

definition sq :: string where
  "sq = [CHR 0x27]"

definition dq :: string where
  "dq = [CHR 0x22]"

text \<open>\<open>sub in s\<close> of Python.\<close>

primrec contains :: "string \<Rightarrow> string \<Rightarrow> bool" where
  "contains sub [] = (sub = [])"
| "contains sub (c # cs) = (prefix sub (c # cs) \<or> contains sub cs)"

text \<open>
  \<open>s.replace(old, new)\<close>: every occurrence of \<open>old\<close>, found from left to right without
  overlap, is replaced. The counter of \<open>replace_from\<close> is the number of characters of the
  last occurrence that are still to be skipped.
\<close>

fun replace_from :: "nat \<Rightarrow> string \<Rightarrow> string \<Rightarrow> string \<Rightarrow> string" where
  "replace_from k old new [] = []"
| "replace_from (Suc k) old new (c # cs) = replace_from k old new cs"
| "replace_from 0 old new (c # cs) =
     (if prefix old (c # cs) then new @ replace_from (length old - 1) old new cs
      else c # replace_from 0 old new cs)"

definition str_replace :: "string \<Rightarrow> string \<Rightarrow> string \<Rightarrow> string" where
  "str_replace s old new =
     (if old = [] then new @ concat (map (\<lambda>c. c # new) s) else replace_from 0 old new s)"

section \<open>Exceptions\<close>

text \<open>
  The program raises nothing itself and catches what \<open>requests\<close> and \<open>base64\<close> raise. What
  it does not catch is the \<open>ValueError\<close> of \<open>urllib.parse.urljoin\<close>, which it calls outside
  any \<open>try\<close>. A function that can be left by this exception returns \<open>Inl ValueError\<close>
  then, and \<open>Inr\<close> of its result otherwise.
\<close>

datatype error = ValueError

definition and_then :: "error + 'a \<Rightarrow> ('a \<Rightarrow> error + 'b) \<Rightarrow> error + 'b" where
  "and_then m f = (case m of Inl e \<Rightarrow> Inl e | Inr x \<Rightarrow> f x)"

section \<open>The parsed document\<close>

text \<open>
  The tree BeautifulSoup builds: a tag with its attribute dictionary (in insertion order) and
  its contents, or a string. \<open>NavigableString\<close> is a string of the class \<open>NavigableString\<close>
  itself (or \<open>CData\<close>); \<open>SubclassString\<close> is a string of another subclass: \<open>Comment\<close>,
  \<open>Stylesheet\<close> and \<open>Script\<close> (the text the parser finds in a \<open>style\<close> or \<open>script\<close> element),
  \<open>TemplateString\<close>, \<open>Doctype\<close> and the like. A BeautifulSoup object, and the contents of a
  tag, is a list of nodes. Attribute values are kept as the strings of the markup; \<open>class\<close>
  and \<open>rel\<close>, which BeautifulSoup holds as the lists of their tokens, are split where they are
  matched.
\<close>

type_synonym attrs = "(string \<times> string) list"

datatype node =
    Tag string attrs "node list"
  | NavigableString string
  | SubclassString string

text \<open>
  What the program takes from outside. \<open>parse\<close> is \<open>BeautifulSoup(text, 'html.parser')\<close>.
  The three functions after it are the pieces \<open>Tag.decode\<close> writes a tree with: the opening
  of a tag (from its name, its attributes and whether it has no contents), its closing, and
  \<open>output_ready\<close> of a string inside a tag of a given name. \<open>urljoin\<close> is
  \<open>urllib.parse.urljoin\<close>; \<open>lower\<close> and \<open>strip\<close> are the methods of \<open>str\<close>; \<open>nonwhitespace\<close>
  gives the tokens of a \<open>class\<close> or \<open>rel\<close> value (the matches of \<^verbatim>\<open>\S+\<close>); \<open>b64encode\<close> is
  \<open>base64.b64encode(x).decode('utf-8')\<close> and \<open>b64decode_utf8\<close> is
  \<open>base64.b64decode(x).decode('utf-8')\<close>, \<open>None\<close> where Python raises.
\<close>

record lib =
  parse :: "string \<Rightarrow> node list"
  start_tag :: "string \<Rightarrow> attrs \<Rightarrow> bool \<Rightarrow> string"
  end_tag :: "string \<Rightarrow> bool \<Rightarrow> string"
  output_ready :: "string \<Rightarrow> node \<Rightarrow> string"
  urljoin :: "string \<Rightarrow> string \<Rightarrow> error + string"
  lower :: "string \<Rightarrow> string"
  strip :: "string \<Rightarrow> string"
  nonwhitespace :: "string \<Rightarrow> string list"
  b64encode :: "string \<Rightarrow> string"
  b64decode_utf8 :: "string \<Rightarrow> string option"

text \<open>
  \<open>str(x)\<close> of a node: a tag is written by \<open>decode\<close>, opening, contents and closing, the
  strings among its contents by \<open>output_ready\<close>; \<open>str\<close> of a string is the string.
\<close>

fun to_str :: "lib \<Rightarrow> node \<Rightarrow> string" where
  "to_str l (Tag nm as cs) =
     start_tag l nm as (cs = [])
     @ concat (map (\<lambda>c. case c of Tag n a k \<Rightarrow> to_str l c | _ \<Rightarrow> output_ready l nm c) cs)
     @ end_tag l nm (cs = [])"
| "to_str l (NavigableString s) = s"
| "to_str l (SubclassString s) = s"

text \<open>\<open>str(soup)\<close>: the BeautifulSoup object writes its contents as a tag named
  \<open>[document]\<close> does, without opening and closing.\<close>

definition decode_soup :: "lib \<Rightarrow> node list \<Rightarrow> string" where
  "decode_soup l ns =
     concat (map (\<lambda>c. case c of Tag n a k \<Rightarrow> to_str l c | _ \<Rightarrow> output_ready l ''[document]'' c) ns)"

text \<open>All nodes below a node, in document order; \<open>find_all\<close> and \<open>find\<close> search them.\<close>

primrec subnodes :: "node \<Rightarrow> node list" where
  "subnodes (Tag nm as cs) = concat (map (\<lambda>c. c # subnodes c) cs)"
| "subnodes (NavigableString s) = []"
| "subnodes (SubclassString s) = []"

definition descendants :: "node list \<Rightarrow> node list" where
  "descendants ns = concat (map (\<lambda>c. c # subnodes c) ns)"

definition find_all :: "(node \<Rightarrow> bool) \<Rightarrow> node list \<Rightarrow> node list" where
  "find_all p ns = filter p (descendants ns)"

definition find :: "(node \<Rightarrow> bool) \<Rightarrow> node list \<Rightarrow> node option" where
  "find p ns = (case find_all p ns of [] \<Rightarrow> None | n # _ \<Rightarrow> Some n)"

text \<open>The matchers of \<open>find\<close> and \<open>find_all\<close>: by tag name, by the value of a plain attribute,
  by a token of \<open>class\<close> or \<open>rel\<close>. (An attribute being present, \<open>href=True\<close>, is a case
  distinction where it is used.)\<close>

fun is_tag :: "string \<Rightarrow> node \<Rightarrow> bool" where
  "is_tag name (Tag nm as cs) = (nm = name)"
| "is_tag name n = False"

fun attrs_of :: "node \<Rightarrow> attrs" where
  "attrs_of (Tag nm as cs) = as"
| "attrs_of n = []"

fun contents :: "node \<Rightarrow> node list" where
  "contents (Tag nm as cs) = cs"
| "contents n = []"

definition attr_is :: "string \<Rightarrow> string \<Rightarrow> node \<Rightarrow> bool" where
  "attr_is k v n = (map_of (attrs_of n) k = Some v)"

definition attr_has_token :: "lib \<Rightarrow> string \<Rightarrow> string list \<Rightarrow> node \<Rightarrow> bool" where
  "attr_has_token l k vs n =
     (case map_of (attrs_of n) k of None \<Rightarrow> False
      | Some v \<Rightarrow> \<exists>t \<in> set (nonwhitespace l v). t \<in> set vs)"

text \<open>\<open>tag.string\<close>: the only child when it is a string, the \<open>string\<close> of the only child
  when that is a tag, otherwise \<open>None\<close>. \<open>string_node\<close> is the string node, \<open>text_of\<close> its
  text.\<close>

primrec string_node :: "node \<Rightarrow> node option" where
  "string_node (Tag nm as cs) =
     (case map string_node cs of [r] \<Rightarrow> r | _ \<Rightarrow> None)"
| "string_node (NavigableString s) = Some (NavigableString s)"
| "string_node (SubclassString s) = Some (SubclassString s)"

fun text_of :: "node \<Rightarrow> string" where
  "text_of (NavigableString s) = s"
| "text_of (SubclassString s) = s"
| "text_of (Tag nm as cs) = []"

text \<open>\<open>tag.get_text()\<close> for a tag that is not itself a container of special strings, such
  as the \<open>h1\<close> it is called on: the strings of the class \<open>NavigableString\<close> below the tag,
  joined. Comments and the text of \<open>style\<close> and \<open>script\<close> elements are left out.\<close>

primrec get_text :: "node \<Rightarrow> string" where
  "get_text (Tag nm as cs) = concat (map get_text cs)"
| "get_text (NavigableString s) = s"
| "get_text (SubclassString s) = []"

section \<open>Loops over \<open>find_all\<close> that change the tree\<close>

text \<open>
  Each loop of the program has the shape \<open>for x in tree.find_all(...): change x\<close>. The list
  is built before the loop runs, the tags are visited in document order, and a tag is
  changed in one of three ways: it is removed with everything below it (\<open>decompose\<close>), it is
  replaced by a new node (\<open>replace_with\<close>, or \<open>tag.string = ...\<close>), or its attributes are
  changed. What is decided for a tag depends on the tag as it is before the loop. On
  the tree, such a loop is one top-down pass, left at the first tag whose change raises.
\<close>

datatype action = Decompose | ReplaceWith node | SetAttrs attrs

fun pass_node :: "(node \<Rightarrow> error + action option) \<Rightarrow> node \<Rightarrow> error + node list"
  and pass :: "(node \<Rightarrow> error + action option) \<Rightarrow> node list \<Rightarrow> error + node list" where
  "pass_node act (Tag nm as cs) =
     (case act (Tag nm as cs) of
        Inl e \<Rightarrow> Inl e
      | Inr (Some Decompose) \<Rightarrow> Inr []
      | Inr (Some (ReplaceWith n)) \<Rightarrow> Inr [n]
      | Inr (Some (SetAttrs as')) \<Rightarrow>
          (case pass act cs of Inl e \<Rightarrow> Inl e | Inr cs' \<Rightarrow> Inr [Tag nm as' cs'])
      | Inr None \<Rightarrow>
          (case pass act cs of Inl e \<Rightarrow> Inl e | Inr cs' \<Rightarrow> Inr [Tag nm as cs']))"
| "pass_node act (NavigableString s) = Inr [NavigableString s]"
| "pass_node act (SubclassString s) = Inr [SubclassString s]"
| "pass act [] = Inr []"
| "pass act (n # ns) =
     (case pass_node act n of
        Inl e \<Rightarrow> Inl e
      | Inr xs \<Rightarrow> (case pass act ns of Inl e \<Rightarrow> Inl e | Inr ys \<Rightarrow> Inr (xs @ ys)))"

section \<open>\<open>download_resource\<close>\<close>

text \<open>
  \<open>fetch url\<close> stands for \<open>requests.get(url, ...)\<close> followed by \<open>raise_for_status()\<close>:
  the bytes of the response, or \<open>None\<close> where either raises. \<open>download_resource\<close> catches
  every exception and returns the bytes in base64, or \<open>None\<close>.
\<close>

definition download_resource :: "lib \<Rightarrow> (string \<Rightarrow> string option) \<Rightarrow> string \<Rightarrow> string option" where
  "download_resource l fetch url = map_option (b64encode l) (fetch url)"

section \<open>\<open>embed_offline_resources\<close>\<close>

subsection \<open>The pattern of font URLs\<close>

text \<open>
  \<open>re.findall\<close> is modelled for patterns that are a sequence of character classes, each
  taken once, optionally (\<open>?\<close>) or one or more times (\<open>+\<close>), both greedy, as Python's
  backtracking matcher runs them: \<open>match_items\<close> returns the text taken by each item of the
  first successful alternative, and the rest of the input.
\<close>

datatype cls = Lit char | OneOf "char list" | NoneOf "char list"

datatype quant = Once | Opt | Plus

type_synonym item = "cls \<times> quant"

fun accepts :: "cls \<Rightarrow> char \<Rightarrow> bool" where
  "accepts (Lit a) c = (c = a)"
| "accepts (OneOf as) c = (c \<in> set as)"
| "accepts (NoneOf as) c = (c \<notin> set as)"

definition took :: "string \<Rightarrow> (string list \<times> string) option \<Rightarrow> (string list \<times> string) option" where
  "took g res = map_option (\<lambda>(gs, r). (g # gs, r)) res"

fun match_items :: "item list \<Rightarrow> string \<Rightarrow> (string list \<times> string) option" where
  "match_items [] s = Some ([], s)"
| "match_items ((c, q) # its) [] =
     (if q = Opt then took [] (match_items its []) else None)"
| "match_items ((c, Once) # its) (x # xs) =
     (if accepts c x then took [x] (match_items its xs) else None)"
| "match_items ((c, Opt) # its) (x # xs) =
     (case (if accepts c x then took [x] (match_items its xs) else None) of
        Some res \<Rightarrow> Some res
      | None \<Rightarrow> took [] (match_items its (x # xs)))"
| "match_items ((c, Plus) # its) (x # xs) =
     (if accepts c x then
        (case match_items ((c, Plus) # its) xs of
           Some (g # gs, r) \<Rightarrow> Some ((x # g) # gs, r)
         | _ \<Rightarrow> took [x] (match_items its xs))
      else None)"

text \<open>The pattern \<^verbatim>\<open>url\([\'"]?([^\'")]+\.[wot]f[f2]?)[\'"]?\)\<close>. Its group is made of the
  items 5 to 9.\<close>

definition font_url_pattern :: "item list" where
  "font_url_pattern =
     [(Lit CHR ''u'', Once), (Lit CHR ''r'', Once), (Lit CHR ''l'', Once), (Lit CHR ''('', Once),
      (OneOf [CHR 0x27, CHR 0x22], Opt),
      (NoneOf [CHR 0x27, CHR 0x22, CHR '')''], Plus),
      (Lit CHR ''.'', Once),
      (OneOf ''wot'', Once),
      (Lit CHR ''f'', Once),
      (OneOf ''f2'', Opt),
      (OneOf [CHR 0x27, CHR 0x22], Opt),
      (Lit CHR '')'', Once)]"

text \<open>\<open>re.findall\<close> with this pattern: the group of every match, the search going on where the
  last match ended. The counter is the number of characters of the last match still to be
  skipped.\<close>

fun findall_from :: "nat \<Rightarrow> string \<Rightarrow> string list" where
  "findall_from k [] = []"
| "findall_from (Suc k) (c # cs) = findall_from k cs"
| "findall_from 0 (c # cs) =
     (case match_items font_url_pattern (c # cs) of
        None \<Rightarrow> findall_from 0 cs
      | Some (gs, r) \<Rightarrow>
          concat (take 5 (drop 5 gs)) # findall_from (length (concat gs) - 1) cs)"

definition findall_font_urls :: "string \<Rightarrow> string list" where
  "findall_font_urls css_content = findall_from 0 css_content"

subsection \<open>Fonts\<close>

definition font_media_type :: "string \<Rightarrow> string" where
  "font_media_type font_url =
     (if endswith font_url ''.woff2'' then ''font/woff2''
      else if endswith font_url ''.woff'' then ''font/woff''
      else if endswith font_url ''.ttf'' then ''font/ttf''
      else if endswith font_url ''.otf'' then ''font/otf''
      else ''font/woff'')"

text \<open>The URL a font is fetched from; \<open>urljoin\<close> is called outside any \<open>try\<close>.\<close>

definition font_full_url :: "lib \<Rightarrow> string \<Rightarrow> error + string" where
  "font_full_url l font_url =
     (if startswith font_url ''/'' then Inr (''https://en.wikipedia.org'' @ font_url)
      else if \<not> startswith font_url ''http''
        then urljoin l ''https://en.wikipedia.org'' font_url
      else Inr font_url)"

text \<open>The three replacements of one font URL by its data URI.\<close>

definition replace_font_url :: "string \<Rightarrow> string \<Rightarrow> string \<Rightarrow> string" where
  "replace_font_url css_content font_url data_uri =
     str_replace
       (str_replace
          (str_replace css_content
             (''url('' @ sq @ font_url @ sq @ '')'') (''url('' @ sq @ data_uri @ sq @ '')''))
          (''url('' @ dq @ font_url @ dq @ '')'') (''url('' @ dq @ data_uri @ dq @ '')''))
       (''url('' @ font_url @ '')'') (''url('' @ data_uri @ '')'')"

text \<open>
  The loop \<open>for font_url in font_urls\<close>. Its state is \<open>css_content\<close>, and whether
  \<open>css_content\<close> still is the string node of the \<open>style\<close> element (\<open>False\<close>) or has become
  a plain \<open>str\<close> (\<open>True\<close>), which \<open>replace\<close> returns.
\<close>

fun embed_font_urls ::
  "lib \<Rightarrow> (string \<Rightarrow> string option) \<Rightarrow> bool \<times> string \<Rightarrow> string list \<Rightarrow> error + bool \<times> string" where
  "embed_font_urls l fetch (replaced, css_content) [] = Inr (replaced, css_content)"
| "embed_font_urls l fetch (replaced, css_content) (font_url # font_urls) =
     (if \<not> startswith font_url ''data:'' then
        (case font_full_url l font_url of
           Inl e \<Rightarrow> Inl e
         | Inr full_url \<Rightarrow>
             (case download_resource l fetch full_url of
                None \<Rightarrow> embed_font_urls l fetch (replaced, css_content) font_urls
              | Some font_data \<Rightarrow>
                  if font_data = [] then embed_font_urls l fetch (replaced, css_content) font_urls
                  else
                    embed_font_urls l fetch
                      (True,
                       replace_font_url css_content font_url
                         (''data:'' @ font_media_type font_url @ '';base64,'' @ font_data))
                      font_urls))
      else embed_font_urls l fetch (replaced, css_content) font_urls)"

text \<open>What the loop over the \<open>style\<close> elements does to the text of one of them.\<close>

definition embed_fonts :: "lib \<Rightarrow> (string \<Rightarrow> string option) \<Rightarrow> string \<Rightarrow> error + bool \<times> string" where
  "embed_fonts l fetch css_content =
     embed_font_urls l fetch (False, css_content) (findall_font_urls css_content)"

text \<open>\<open>style.string = css_content\<close> puts a copy of \<open>css_content\<close> in the place of the contents:
  of the class of the string node it was read from while it still is that node, a
  \<open>NavigableString\<close> once it is a plain \<open>str\<close>.\<close>

definition font_action :: "lib \<Rightarrow> (string \<Rightarrow> string option) \<Rightarrow> node \<Rightarrow> error + action option" where
  "font_action l fetch n =
     (if is_tag ''style'' n then
        (case string_node n of
           None \<Rightarrow> Inr None
         | Some sn \<Rightarrow>
             if text_of sn = [] then Inr None
             else
               (case embed_fonts l fetch (text_of sn) of
                  Inl e \<Rightarrow> Inl e
                | Inr (replaced, css_content) \<Rightarrow>
                    Inr (Some (ReplaceWith
                      (Tag ''style'' (attrs_of n)
                         [if replaced then NavigableString css_content else sn])))))
      else Inr None)"

subsection \<open>Stylesheets\<close>

definition is_stylesheet_link :: "lib \<Rightarrow> node \<Rightarrow> bool" where
  "is_stylesheet_link l n = (is_tag ''link'' n \<and> attr_has_token l ''rel'' [''stylesheet''] n)"

definition embed_stylesheet_action ::
  "lib \<Rightarrow> (string \<Rightarrow> string option) \<Rightarrow> node \<Rightarrow> error + action option" where
  "embed_stylesheet_action l fetch n =
     Inr (if is_stylesheet_link l n then
        (case map_of (attrs_of n) ''href'' of
           None \<Rightarrow> None
         | Some href \<Rightarrow>
             (case download_resource l fetch href of
                None \<Rightarrow> None
              | Some css_data \<Rightarrow>
                  if css_data = [] then None
                  else (case b64decode_utf8 l css_data of
                          None \<Rightarrow> None
                        | Some css_content \<Rightarrow>
                            Some (ReplaceWith (Tag ''style'' [] [NavigableString css_content])))))
      else None)"

subsection \<open>Images\<close>

definition image_media_type :: "string \<Rightarrow> string" where
  "image_media_type src =
     (if endswith src ''.jpg'' \<or> endswith src ''.jpeg'' then ''image/jpeg''
      else if endswith src ''.png'' then ''image/png''
      else if endswith src ''.gif'' then ''image/gif''
      else if endswith src ''.svg'' then ''image/svg+xml''
      else ''image/jpeg'')"

definition embed_image_action ::
  "lib \<Rightarrow> (string \<Rightarrow> string option) \<Rightarrow> node \<Rightarrow> error + action option" where
  "embed_image_action l fetch n =
     Inr (if is_tag ''img'' n then
        (case map_of (attrs_of n) ''src'' of
           None \<Rightarrow> None
         | Some src \<Rightarrow>
             (case download_resource l fetch src of
                None \<Rightarrow> None
              | Some img_data \<Rightarrow>
                  if img_data = [] then None
                  else Some (SetAttrs (AList.update ''src''
                         (''data:'' @ image_media_type src @ '';base64,'' @ img_data)
                         (attrs_of n)))))
      else None)"

subsection \<open>The embedder\<close>

text \<open>The loops run in the order stylesheets, images, fonts. \<open>embed_head\<close> is what the first
  and the third do to the head (the third finds the \<open>style\<close> elements the first has made),
  \<open>embed_body\<close> what the second does to the body.\<close>

definition embed_head :: "lib \<Rightarrow> (string \<Rightarrow> string option) \<Rightarrow> node list \<Rightarrow> error + node list" where
  "embed_head l fetch soup =
     and_then (pass (embed_stylesheet_action l fetch) soup) (pass (font_action l fetch))"

definition embed_body :: "lib \<Rightarrow> (string \<Rightarrow> string option) \<Rightarrow> node list \<Rightarrow> error + node list" where
  "embed_body l fetch body_soup = pass (embed_image_action l fetch) body_soup"

definition embed_offline_resources ::
  "lib \<Rightarrow> (string \<Rightarrow> string option) \<Rightarrow> string \<Rightarrow> string \<Rightarrow> error + string \<times> string" where
  "embed_offline_resources l fetch html_content body_content =
     (let soup = parse l html_content;
          body_soup = parse l body_content
      in and_then (pass (embed_stylesheet_action l fetch) soup) (\<lambda>soup1.
         and_then (pass (embed_image_action l fetch) body_soup) (\<lambda>body_soup1.
         and_then (pass (font_action l fetch) soup1) (\<lambda>soup2.
         Inr (decode_soup l soup2, decode_soup l body_soup1)))))"

section \<open>\<open>process_wikipedia_html\<close>\<close>

subsection \<open>Title\<close>

definition extract_title :: "lib \<Rightarrow> node list \<Rightarrow> string" where
  "extract_title l soup =
     (case find (\<lambda>n. is_tag ''h1'' n \<and> attr_has_token l ''class'' [''firstHeading''] n) soup of
        Some title \<Rightarrow> strip l (get_text title)
      | None \<Rightarrow>
         (case find (\<lambda>n. is_tag ''h1'' n \<and> attr_is ''id'' ''firstHeading'' n) soup of
            Some title \<Rightarrow> strip l (get_text title)
          | None \<Rightarrow>
             (case find (is_tag ''h1'') soup of
                Some title \<Rightarrow> strip l (get_text title)
              | None \<Rightarrow> ''Wikipedia Article'')))"

subsection \<open>Head\<close>

text \<open>The lines the program repeats for the \<open>href\<close> of a link and the \<open>src\<close> of a script;
  \<open>urljoin\<close> is called outside any \<open>try\<close>.\<close>

definition make_absolute :: "lib \<Rightarrow> string \<Rightarrow> string \<Rightarrow> error + string" where
  "make_absolute l source_url href =
     (if startswith href ''/'' then Inr (''https://en.wikipedia.org'' @ href)
      else if \<not> startswith href ''http'' then urljoin l source_url href
      else Inr href)"

definition set_absolute :: "lib \<Rightarrow> string \<Rightarrow> string \<Rightarrow> node \<Rightarrow> error + action option" where
  "set_absolute l source_url k n =
     (case map_of (attrs_of n) k of
        None \<Rightarrow> Inr None
      | Some v \<Rightarrow>
          (case make_absolute l source_url v of
             Inl e \<Rightarrow> Inl e
           | Inr v' \<Rightarrow> Inr (Some (SetAttrs (AList.update k v' (attrs_of n))))))"

definition head_stylesheet_action :: "lib \<Rightarrow> string \<Rightarrow> node \<Rightarrow> error + action option" where
  "head_stylesheet_action l source_url n =
     (if is_stylesheet_link l n then set_absolute l source_url ''href'' n else Inr None)"

definition head_link_action :: "lib \<Rightarrow> string \<Rightarrow> node \<Rightarrow> error + action option" where
  "head_link_action l source_url n =
     (if is_tag ''link'' n then set_absolute l source_url ''href'' n else Inr None)"

definition head_script_action :: "lib \<Rightarrow> string \<Rightarrow> node \<Rightarrow> error + action option" where
  "head_script_action l source_url n =
     (if is_tag ''script'' n then set_absolute l source_url ''src'' n else Inr None)"

text \<open>The three loops over what is below the head.\<close>

definition process_head_contents :: "lib \<Rightarrow> string \<Rightarrow> node list \<Rightarrow> error + node list" where
  "process_head_contents l source_url cs =
     and_then (pass (head_stylesheet_action l source_url) cs) (\<lambda>cs1.
     and_then (pass (head_link_action l source_url) cs1) (\<lambda>cs2.
     pass (head_script_action l source_url) cs2))"

fun process_head :: "lib \<Rightarrow> string \<Rightarrow> node \<Rightarrow> error + node" where
  "process_head l source_url (Tag nm as cs) =
     and_then (process_head_contents l source_url cs) (\<lambda>cs'. Inr (Tag nm as cs'))"
| "process_head l source_url n = Inr n"

text \<open>The head is changed in place, inside the tree: the first node that satisfies \<open>p\<close>, in
  document order, is replaced.\<close>

fun replace_first_node :: "(node \<Rightarrow> bool) \<Rightarrow> node \<Rightarrow> node \<Rightarrow> node option"
  and replace_first_forest :: "(node \<Rightarrow> bool) \<Rightarrow> node \<Rightarrow> node list \<Rightarrow> node list option" where
  "replace_first_node p new (Tag nm as cs) =
     (if p (Tag nm as cs) then Some new
      else map_option (Tag nm as) (replace_first_forest p new cs))"
| "replace_first_node p new (NavigableString s) =
     (if p (NavigableString s) then Some new else None)"
| "replace_first_node p new (SubclassString s) =
     (if p (SubclassString s) then Some new else None)"
| "replace_first_forest p new [] = None"
| "replace_first_forest p new (n # ns) =
     (case replace_first_node p new n of
        Some n' \<Rightarrow> Some (n' # ns)
      | None \<Rightarrow> map_option ((#) n) (replace_first_forest p new ns))"

definition replace_first :: "(node \<Rightarrow> bool) \<Rightarrow> node \<Rightarrow> node list \<Rightarrow> node list" where
  "replace_first p new soup =
     (case replace_first_forest p new soup of None \<Rightarrow> soup | Some soup' \<Rightarrow> soup')"

subsection \<open>Body\<close>

definition remove_action :: "(node \<Rightarrow> bool) \<Rightarrow> node \<Rightarrow> error + action option" where
  "remove_action p n = Inr (if p n then Some Decompose else None)"

definition script_action :: "lib \<Rightarrow> string \<Rightarrow> node \<Rightarrow> error + action option" where
  "script_action l source_url n =
     (if is_tag ''script'' n then
        (let src = (case map_of (attrs_of n) ''src'' of None \<Rightarrow> [] | Some v \<Rightarrow> v) in
         if contains ''analytics'' (lower l src) \<or> contains ''tracker'' (lower l src)
            \<or> contains ''google'' (lower l src)
         then Inr (Some Decompose)
         else if (case string_node n of
                    None \<Rightarrow> False
                  | Some sn \<Rightarrow> text_of sn \<noteq> []
                               \<and> (contains ''analytics'' (lower l (text_of sn))
                                  \<or> contains ''tracker'' (lower l (text_of sn))))
         then Inr (Some Decompose)
         else if src \<noteq> [] then
           (case make_absolute l source_url src of
              Inl e \<Rightarrow> Inl e
            | Inr src' \<Rightarrow> Inr (Some (SetAttrs (AList.update ''src'' src' (attrs_of n)))))
         else Inr None)
      else Inr None)"

text \<open>What both marking branches of the loop over the links do to the attributes of an
  anchor: the destination and the \<open>onclick\<close> with the category are set, the \<open>href\<close> is
  deleted.\<close>

definition mark_boundary :: "string \<Rightarrow> string \<Rightarrow> attrs \<Rightarrow> attrs" where
  "mark_boundary url category as =
     AList.delete ''href''
       (AList.update ''onclick''
          (''showBoundaryWarning('' @ sq @ url @ sq @ '', '' @ sq @ category @ sq
           @ ''); return false;'')
          (AList.update ''data-boundary-url'' url as))"

text \<open>The body of the loop over \<open>body.find_all('a', href=True)\<close>, on the attributes of one
  anchor whose \<open>href\<close> is \<open>href\<close>.\<close>

definition rewrite_anchor :: "lib \<Rightarrow> string \<Rightarrow> string \<Rightarrow> attrs \<Rightarrow> error + attrs" where
  "rewrite_anchor l source_url href as =
     (if startswith href ''#'' then Inr as
      else if startswith href ''/wiki/'' then
        Inr (mark_boundary (''https://en.wikipedia.org'' @ href) ''wikipedia'' as)
      else if startswith href ''http://'' \<or> startswith href ''https://''
              \<or> startswith href ''//'' then
        Inr (mark_boundary (if startswith href ''http'' then href else ''https:'' @ href)
               ''external'' as)
      else if \<not> startswith href ''http'' then
        (case urljoin l source_url href of
           Inl e \<Rightarrow> Inl e
         | Inr url \<Rightarrow> Inr (AList.update ''href'' url as))
      else Inr as)"

definition link_action :: "lib \<Rightarrow> string \<Rightarrow> node \<Rightarrow> error + action option" where
  "link_action l source_url n =
     (if is_tag ''a'' n then
        (case map_of (attrs_of n) ''href'' of
           None \<Rightarrow> Inr None
         | Some href \<Rightarrow>
             (case rewrite_anchor l source_url href (attrs_of n) of
                Inl e \<Rightarrow> Inl e
              | Inr as' \<Rightarrow> Inr (Some (SetAttrs as'))))
      else Inr None)"

definition image_action :: "lib \<Rightarrow> string \<Rightarrow> node \<Rightarrow> error + action option" where
  "image_action l source_url n =
     (if is_tag ''img'' n then
        (case map_of (attrs_of n) ''src'' of
           None \<Rightarrow> Inr None
         | Some src \<Rightarrow>
             if startswith src ''//'' then
               Inr (Some (SetAttrs (AList.update ''src'' (''https:'' @ src) (attrs_of n))))
             else if \<not> startswith src ''http'' then
               (case urljoin l source_url src of
                  Inl e \<Rightarrow> Inl e
                | Inr src' \<Rightarrow> Inr (Some (SetAttrs (AList.update ''src'' src' (attrs_of n)))))
             else Inr None)
      else Inr None)"

text \<open>The tags the removing loops take out of the body.\<close>

definition is_edit_section :: "lib \<Rightarrow> node \<Rightarrow> bool" where
  "is_edit_section l n = (is_tag ''span'' n \<and> attr_has_token l ''class'' [''mw-editsection''] n)"

definition is_unwanted_div :: "lib \<Rightarrow> node \<Rightarrow> bool" where
  "is_unwanted_div l n =
     (is_tag ''div'' n \<and> attr_has_token l ''class''
        [''navbox'', ''printfooter'', ''mw-authority-control'', ''noprint''] n)"

definition is_navigation :: "node \<Rightarrow> bool" where
  "is_navigation n = (is_tag ''div'' n \<and> attr_is ''role'' ''navigation'' n)"

definition is_edit_bracket :: "lib \<Rightarrow> node \<Rightarrow> bool" where
  "is_edit_bracket l n =
     (is_tag ''span'' n \<and> attr_has_token l ''class'' [''mw-editsection-bracket''] n)"

text \<open>The loops over what is below the body, in the order of the program.\<close>

definition process_body_contents :: "lib \<Rightarrow> string \<Rightarrow> node list \<Rightarrow> error + node list" where
  "process_body_contents l source_url cs =
     and_then (pass (remove_action (is_tag ''noscript'')) cs) (\<lambda>cs1.
     and_then (pass (script_action l source_url) cs1) (\<lambda>cs2.
     and_then (pass (remove_action (is_edit_section l)) cs2) (\<lambda>cs3.
     and_then (pass (remove_action (is_unwanted_div l)) cs3) (\<lambda>cs4.
     and_then (pass (remove_action is_navigation) cs4) (\<lambda>cs5.
     and_then (pass (remove_action (is_edit_bracket l)) cs5) (\<lambda>cs6.
     and_then (pass (link_action l source_url) cs6) (\<lambda>cs7.
     pass (image_action l source_url) cs7)))))))"

subsection \<open>The function\<close>

record page_data =
  title :: string
  head_content :: string
  body_content :: string
  offline :: bool

text \<open>The head found and rewritten inside the tree: the head fragment and the tree after it.\<close>

definition rewrite_head :: "lib \<Rightarrow> string \<Rightarrow> node list \<Rightarrow> error + string \<times> node list" where
  "rewrite_head l source_url soup =
     (case find (is_tag ''head'') soup of
        None \<Rightarrow> Inr ([], soup)
      | Some head \<Rightarrow>
          and_then (process_head l source_url head) (\<lambda>head'.
          Inr (to_str l head', replace_first (is_tag ''head'') head' soup)))"

text \<open>What the loops over the body work on: the contents of the body, or the whole tree.\<close>

definition body_nodes :: "node list \<Rightarrow> node list" where
  "body_nodes soup = (case find (is_tag ''body'') soup of None \<Rightarrow> soup | Some b \<Rightarrow> contents b)"

text \<open>The body fragment, from the tree the head has been rewritten in:
  \<open>''.join([str(child) for child in body.children])\<close>.\<close>

definition rewrite_body :: "lib \<Rightarrow> string \<Rightarrow> node list \<Rightarrow> error + string" where
  "rewrite_body l source_url soup =
     and_then (process_body_contents l source_url (body_nodes soup)) (\<lambda>cs.
     Inr (concat (map (to_str l) cs)))"

definition process_wikipedia_html ::
  "lib \<Rightarrow> (string \<Rightarrow> string option) \<Rightarrow> string \<Rightarrow> string \<Rightarrow> bool \<Rightarrow> error + page_data" where
  "process_wikipedia_html l fetch html_content source_url offl =
     (let soup = parse l html_content;
          title_text = extract_title l soup
      in and_then (rewrite_head l source_url soup) (\<lambda>(head_content0, soup1).
         and_then (rewrite_body l source_url soup1) (\<lambda>body_content0.
         and_then (if offl then embed_offline_resources l fetch head_content0 body_content0
                   else Inr (head_content0, body_content0)) (\<lambda>(head_content1, body_content1).
         Inr \<lparr>title = title_text, head_content = head_content1,
              body_content = body_content1, offline = offl\<rparr>))))"

section \<open>\<open>generate_html\<close>\<close>

text \<open>The text of \<open>boundary_css\<close>, one line of the program on each line.\<close>

definition boundary_css :: string where
  \<open>boundary_css = concat
     [''    <style>\<newline>'',
      ''    /* Boundary Modal */\<newline>'',
      ''    .modal-overlay {\<newline>'',
      ''        display: none;\<newline>'',
      ''        position: fixed;\<newline>'',
      ''        top: 0;\<newline>'',
      ''        left: 0;\<newline>'',
      ''        width: 100%;\<newline>'',
      ''        height: 100%;\<newline>'',
      ''        background: rgba(0, 0, 0, 0.85);\<newline>'',
      ''        backdrop-filter: blur(5px);\<newline>'',
      ''        z-index: 9999;\<newline>'',
      ''        align-items: center;\<newline>'',
      ''        justify-content: center;\<newline>'',
      ''    }\<newline>'',
      ''\<newline>'',
      ''    .modal-overlay.active {\<newline>'',
      ''        display: flex;\<newline>'',
      ''    }\<newline>'',
      ''\<newline>'',
      ''    .boundary-modal {\<newline>'',
      ''        background: linear-gradient(135deg, #1a1a2e 0%, #16213e 100%);\<newline>'',
      ''        border: 2px solid #00ff41;\<newline>'',
      ''        border-radius: 3px;\<newline>'',
      ''        padding: 30px;\<newline>'',
      ''        max-width: 500px;\<newline>'',
      ''        box-shadow: 0 0 40px rgba(0, 255, 65, 0.3), inset 0 0 20px rgba(0, 255, 65, 0.1);\<newline>'',
      ''        color: #00ff41;\<newline>'',
      ''        font-family: '' @ sq @ ''Courier New'' @ sq @ '', monospace;\<newline>'',
      ''        animation: glitch 0.3s ease-in-out;\<newline>'',
      ''    }\<newline>'',
      ''\<newline>'',
      ''    @keyframes glitch {\<newline>'',
      ''        0%, 100% { transform: translate(0); }\<newline>'',
      ''        20% { transform: translate(-2px, 2px); }\<newline>'',
      ''        40% { transform: translate(-2px, -2px); }\<newline>'',
      ''        60% { transform: translate(2px, 2px); }\<newline>'',
      ''        80% { transform: translate(2px, -2px); }\<newline>'',
      ''    }\<newline>'',
      ''\<newline>'',
      ''    .boundary-modal h2 {\<newline>'',
      ''        color: #00ff41;\<newline>'',
      ''        font-size: 24px;\<newline>'',
      ''        margin: 0 0 20px 0;\<newline>'',
      ''        text-align: center;\<newline>'',
      ''        border: none;\<newline>'',
      ''        font-family: '' @ sq @ ''Courier New'' @ sq @ '', monospace;\<newline>'',
      ''        text-shadow: 0 0 10px rgba(0, 255, 65, 0.7);\<newline>'',
      ''        letter-spacing: 2px;\<newline>'',
      ''    }\<newline>'',
      ''\<newline>'',
      ''    .boundary-modal p {\<newline>'',
      ''        color: #00ff41;\<newline>'',
      ''        font-size: 14px;\<newline>'',
      ''        line-height: 1.8;\<newline>'',
      ''        margin-bottom: 20px;\<newline>'',
      ''        text-align: left;\<newline>'',
      ''    }\<newline>'',
      ''\<newline>'',
      ''    .boundary-modal .warning {\<newline>'',
      ''        background: rgba(255, 0, 0, 0.1);\<newline>'',
      ''        border-left: 3px solid #ff0040;\<newline>'',
      ''        padding: 10px;\<newline>'',
      ''        margin: 15px 0;\<newline>'',
      ''        color: #ff0040;\<newline>'',
      ''        font-size: 13px;\<newline>'',
      ''    }\<newline>'',
      ''\<newline>'',
      ''    .boundary-modal .link-display {\<newline>'',
      ''        background: rgba(0, 0, 0, 0.5);\<newline>'',
      ''        border: 1px solid #00ff41;\<newline>'',
      ''        padding: 10px;\<newline>'',
      ''        margin: 15px 0;\<newline>'',
      ''        word-break: break-all;\<newline>'',
      ''        font-size: 12px;\<newline>'',
      ''        color: #0ff;\<newline>'',
      ''    }\<newline>'',
      ''\<newline>'',
      ''    .modal-buttons {\<newline>'',
      ''        display: flex;\<newline>'',
      ''        gap: 15px;\<newline>'',
      ''        justify-content: center;\<newline>'',
      ''        margin-top: 25px;\<newline>'',
      ''    }\<newline>'',
      ''\<newline>'',
      ''    .modal-btn {\<newline>'',
      ''        padding: 10px 25px;\<newline>'',
      ''        border: 2px solid #00ff41;\<newline>'',
      ''        background: transparent;\<newline>'',
      ''        color: #00ff41;\<newline>'',
      ''        cursor: pointer;\<newline>'',
      ''        font-family: '' @ sq @ ''Courier New'' @ sq @ '', monospace;\<newline>'',
      ''        font-size: 14px;\<newline>'',
      ''        font-weight: bold;\<newline>'',
      ''        transition: all 0.3s;\<newline>'',
      ''        text-transform: uppercase;\<newline>'',
      ''        letter-spacing: 1px;\<newline>'',
      ''    }\<newline>'',
      ''\<newline>'',
      ''    .modal-btn:hover {\<newline>'',
      ''        background: #00ff41;\<newline>'',
      ''        color: #1a1a2e;\<newline>'',
      ''        box-shadow: 0 0 20px rgba(0, 255, 65, 0.5);\<newline>'',
      ''    }\<newline>'',
      ''\<newline>'',
      ''    .modal-btn.danger {\<newline>'',
      ''        border-color: #ff0040;\<newline>'',
      ''        color: #ff0040;\<newline>'',
      ''    }\<newline>'',
      ''\<newline>'',
      ''    .modal-btn.danger:hover {\<newline>'',
      ''        background: #ff0040;\<newline>'',
      ''        color: #fff;\<newline>'',
      ''        box-shadow: 0 0 20px rgba(255, 0, 64, 0.5);\<newline>'',
      ''    }\<newline>'',
      ''\<newline>'',
      ''    .blink {\<newline>'',
      ''        animation: blink 1s infinite;\<newline>'',
      ''    }\<newline>'',
      ''\<newline>'',
      ''    @keyframes blink {\<newline>'',
      ''        0%, 49% { opacity: 1; }\<newline>'',
      ''        50%, 100% { opacity: 0; }\<newline>'',
      ''    }\<newline>'',
      ''    </style>\<newline>'']\<close>

text \<open>The text of \<open>boundary_modal\<close>. It is not a formatted string literal, so its doubled
  braces stay doubled.\<close>

definition boundary_modal :: string where
  \<open>boundary_modal = concat
     [''\<newline>'',
      ''    <!-- Boundary Warning Modal -->\<newline>'',
      ''    <div class='' @ dq @ ''modal-overlay'' @ dq @ '' id='' @ dq @ ''boundaryModal'' @ dq @ ''>\<newline>'',
      ''        <div class='' @ dq @ ''boundary-modal'' @ dq @ ''>\<newline>'',
      ''            <h2>'' @ [CHR 0xE2, CHR 0x9A, CHR 0xA0] @ '' REALITY BOUNDARY DETECTED '' @ [CHR 0xE2, CHR 0x9A, CHR 0xA0] @ ''</h2>\<newline>'',
      ''            <p>You are attempting to exit this mirror and access <strong>another Wikipedia page</strong>.</p>\<newline>'',
      ''            <div class='' @ dq @ ''warning'' @ dq @ ''>\<newline>'',
      ''                <span class='' @ dq @ ''blink'' @ dq @ ''>'' @ [CHR 0xE2, CHR 0x96, CHR 0xB6] @ ''</span> WARNING: Crossing between wiki-spaces may cause temporal displacement.\<newline>'',
      ''            </div>\<newline>'',
      ''            <p>Target destination:</p>\<newline>'',
      ''            <div class='' @ dq @ ''link-display'' @ dq @ '' id='' @ dq @ ''targetLink'' @ dq @ ''></div>\<newline>'',
      ''            <p style='' @ dq @ ''font-size: 12px; color: #0ff;'' @ dq @ ''>This page contains references to other Wikipedia articles. Proceeding will navigate away from the current mirror.</p>\<newline>'',
      ''            <div class='' @ dq @ ''modal-buttons'' @ dq @ ''>\<newline>'',
      ''                <button class='' @ dq @ ''modal-btn'' @ dq @ '' onclick='' @ dq @ ''closeModal()'' @ dq @ ''>STAY HERE</button>\<newline>'',
      ''                <button class='' @ dq @ ''modal-btn danger'' @ dq @ '' onclick='' @ dq @ ''proceedToLink()'' @ dq @ ''>TRAVERSE BOUNDARY</button>\<newline>'',
      ''            </div>\<newline>'',
      ''        </div>\<newline>'',
      ''    </div>\<newline>'',
      ''\<newline>'',
      ''    <script>\<newline>'',
      ''        let pendingUrl = null;\<newline>'',
      ''\<newline>'',
      ''        function showBoundaryWarning(url, type) {{\<newline>'',
      ''            pendingUrl = url;\<newline>'',
      ''\<newline>'',
      ''            if (type === '' @ sq @ ''wikipedia'' @ sq @ '') {{\<newline>'',
      ''                document.querySelector('' @ sq @ ''.boundary-modal h2'' @ sq @ '').textContent = '' @ sq @ [CHR 0xE2, CHR 0x9A, CHR 0xA0] @ '' REALITY BOUNDARY DETECTED '' @ [CHR 0xE2, CHR 0x9A, CHR 0xA0] @ sq @ '';\<newline>'',
      ''                document.querySelector('' @ sq @ ''.boundary-modal p:first-of-type'' @ sq @ '').textContent = '' @ sq @ ''You are attempting to exit this mirror and access another Wikipedia page.'' @ sq @ '';\<newline>'',
      ''            }} else if (type === '' @ sq @ ''external'' @ sq @ '') {{\<newline>'',
      ''                document.querySelector('' @ sq @ ''.boundary-modal h2'' @ sq @ '').textContent = '' @ sq @ [CHR 0xE2, CHR 0x9A, CHR 0xA0] @ '' EXTERNAL LINK WARNING '' @ [CHR 0xE2, CHR 0x9A, CHR 0xA0] @ sq @ '';\<newline>'',
      ''                document.querySelector('' @ sq @ ''.boundary-modal p:first-of-type'' @ sq @ '').textContent = '' @ sq @ ''You are attempting to access an external website outside this mirror.'' @ sq @ '';\<newline>'',
      ''            }}\<newline>'',
      ''\<newline>'',
      ''            document.getElementById('' @ sq @ ''targetLink'' @ sq @ '').textContent = url;\<newline>'',
      ''            document.getElementById('' @ sq @ ''boundaryModal'' @ sq @ '').classList.add('' @ sq @ ''active'' @ sq @ '');\<newline>'',
      ''        }}\<newline>'',
      ''\<newline>'',
      ''        function closeModal() {{\<newline>'',
      ''            document.getElementById('' @ sq @ ''boundaryModal'' @ sq @ '').classList.remove('' @ sq @ ''active'' @ sq @ '');\<newline>'',
      ''            pendingUrl = null;\<newline>'',
      ''        }}\<newline>'',
      ''\<newline>'',
      ''        function proceedToLink() {{\<newline>'',
      ''            if (pendingUrl) {{\<newline>'',
      ''                window.open(pendingUrl, '' @ sq @ ''_blank'' @ sq @ '');\<newline>'',
      ''                closeModal();\<newline>'',
      ''            }}\<newline>'',
      ''        }}\<newline>'',
      ''\<newline>'',
      ''        // Handle hash links\<newline>'',
      ''        document.addEventListener('' @ sq @ ''click'' @ sq @ '', function(e) {{\<newline>'',
      ''            const link = e.target.closest('' @ sq @ ''a[href^='' @ dq @ ''#'' @ dq @ '']'' @ sq @ '');\<newline>'',
      ''            if (link) {{\<newline>'',
      ''                e.preventDefault();\<newline>'',
      ''                const target = link.getAttribute('' @ sq @ ''href'' @ sq @ '');\<newline>'',
      ''                if (target && target !== '' @ sq @ ''#'' @ sq @ '') {{\<newline>'',
      ''                    const element = document.querySelector(target);\<newline>'',
      ''                    if (element) {{\<newline>'',
      ''                        element.scrollIntoView({{ behavior: '' @ sq @ ''smooth'' @ sq @ '' }});\<newline>'',
      ''                    }}\<newline>'',
      ''                }}\<newline>'',
      ''            }}\<newline>'',
      ''        }});\<newline>'',
      ''\<newline>'',
      ''        // Close modal on escape key\<newline>'',
      ''        document.addEventListener('' @ sq @ ''keydown'' @ sq @ '', function(e) {{\<newline>'',
      ''            if (e.key === '' @ sq @ ''Escape'' @ sq @ '') {{\<newline>'',
      ''                closeModal();\<newline>'',
      ''            }}\<newline>'',
      ''        }});\<newline>'',
      ''\<newline>'',
      ''        // Close modal on overlay click\<newline>'',
      ''        document.getElementById('' @ sq @ ''boundaryModal'' @ sq @ '').addEventListener('' @ sq @ ''click'' @ sq @ '', function(e) {{\<newline>'',
      ''            if (e.target === this) {{\<newline>'',
      ''                closeModal();\<newline>'',
      ''            }}\<newline>'',
      ''        }});\<newline>'',
      ''    </script>\<newline>'']\<close>

definition generate_html :: "page_data \<Rightarrow> string" where
  \<open>generate_html data =
     (let head_with_css = str_replace (head_content data) ''</head>'' (boundary_css @ ''</head>'')
      in ''<!DOCTYPE html>\<newline><html lang='' @ dq @ ''en'' @ dq @ ''>\<newline>''
         @ head_with_css @ ''\<newline><body>\<newline>''
         @ body_content data @ boundary_modal @ ''</body>\<newline></html>\<newline>'')\<close>

section \<open>Where a node is in a tree\<close>

text \<open>\<open>occurs ok n ns\<close>: the node \<open>n\<close> is in the forest \<open>ns\<close>, at the top or below tags that all
  satisfy \<open>ok\<close>.\<close>

inductive occurs :: "(node \<Rightarrow> bool) \<Rightarrow> node \<Rightarrow> node list \<Rightarrow> bool"
  for ok :: "node \<Rightarrow> bool" and n :: node where
  here: "n \<in> set ns \<Longrightarrow> occurs ok n ns"
| below: "Tag nm as cs \<in> set ns \<Longrightarrow> ok (Tag nm as cs) \<Longrightarrow> occurs ok n cs \<Longrightarrow> occurs ok n ns"

text \<open>\<open>keeps ok act\<close>: a loop that does \<open>act\<close> neither removes nor replaces a tag that
  satisfies \<open>ok\<close>, and the tag satisfies \<open>ok\<close> after the loop, whatever has become of its
  attributes and contents.\<close>

definition keeps :: "(node \<Rightarrow> bool) \<Rightarrow> (node \<Rightarrow> error + action option) \<Rightarrow> bool" where
  "keeps ok act =
     (\<forall>n a c r. ok (Tag n a c) \<and> act (Tag n a c) = Inr r \<longrightarrow>
        (r = None \<or> (\<exists>a'. r = Some (SetAttrs a') \<and> (\<forall>c'. ok (Tag n a' c'))))
        \<and> (\<forall>c'. ok (Tag n a c')))"


text \<open>A tag that no removing loop of the rewriter takes out of the body, and that is not a
  \<open>script\<close> (which the loop over the scripts may take out).\<close>

definition survives :: "lib \<Rightarrow> node \<Rightarrow> bool" where
  "survives l n =
     (\<not> is_tag ''noscript'' n \<and> \<not> is_tag ''script'' n \<and> \<not> is_edit_section l n
      \<and> \<not> is_unwanted_div l n \<and> \<not> is_navigation n \<and> \<not> is_edit_bracket l n)"

text \<open>A tag that the embedder does not replace: neither a \<open>link\<close> nor a \<open>style\<close>.\<close>

definition plain :: "node \<Rightarrow> bool" where
  "plain n = (\<not> is_tag ''link'' n \<and> \<not> is_tag ''style'' n)"


section \<open>An instance of the library\<close>

text \<open>Splitting at ASCII whitespace.\<close>

definition is_space :: "char \<Rightarrow> bool" where
  "is_space c =
     (c \<in> set [CHR 0x20, CHR 0x09, CHR 0x0A, CHR 0x0B, CHR 0x0C, CHR 0x0D,
                CHR 0x1C, CHR 0x1D, CHR 0x1E, CHR 0x1F])"

fun split_from :: "string \<Rightarrow> string \<Rightarrow> string list" where
  "split_from cur [] = (if cur = [] then [] else [cur])"
| "split_from cur (c # cs) =
     (if is_space c then (if cur = [] then split_from [] cs else cur # split_from [] cs)
      else split_from (cur @ [c]) cs)"

text \<open>
  An instance of \<open>lib\<close> on which the model can be run. It is not Python's library: the parser
  is a table from texts to trees (the empty tree for any other text), tags and strings are
  written without escaping, \<open>class\<close> and \<open>rel\<close> are split at ASCII whitespace, a reference is
  joined to the base by writing it after a slash, and the other functions return their
  argument. As \<open>urllib.parse.urljoin\<close> does, \<open>urljoin\<close> raises \<open>ValueError\<close> on a reference
  whose authority has an opening bracket that is not closed, here on those that begin with
  \<^verbatim>\<open>ftp://[x\<close>.
\<close>

definition example_lib :: "(string \<times> node list) list \<Rightarrow> lib" where
  "example_lib table =
     \<lparr>parse = (\<lambda>text. case map_of table text of None \<Rightarrow> [] | Some soup \<Rightarrow> soup),
      start_tag = (\<lambda>nm as empty.
         ''<'' @ nm @ concat (map (\<lambda>kv. '' '' @ fst kv @ ''='' @ dq @ snd kv @ dq) as) @ ''>''),
      end_tag = (\<lambda>nm empty. ''</'' @ nm @ ''>''),
      output_ready = (\<lambda>parent n. text_of n),
      urljoin = (\<lambda>base url.
         if startswith url ''ftp://[x'' then Inl ValueError else Inr (base @ ''/'' @ url)),
      lower = (\<lambda>s. s), strip = (\<lambda>s. s),
      nonwhitespace = split_from [],
      b64encode = (\<lambda>s. s), b64decode_utf8 = Some\<rparr>"

text \<open>A network without any resource.\<close>

definition no_network :: "string \<Rightarrow> string option" where
  "no_network url = None"

section \<open>Inputs of the examples\<close>

text \<open>A body with three anchors in a \<open>div\<close> that stays.\<close>

definition links_html :: string where
  "links_html = ''(a body with the anchors /wiki/Foo, //example.com/x and httpfoo.html)''"

definition links_soup :: "node list" where
  "links_soup =
     [Tag ''body'' []
        [Tag ''div'' [(''class'', ''mw-body content'')]
           [Tag ''a'' [(''href'', ''/wiki/Foo'')] [NavigableString ''Foo''],
            Tag ''a'' [(''href'', ''//example.com/x'')] [NavigableString ''x''],
            Tag ''a'' [(''href'', ''httpfoo.html'')] [NavigableString ''h'']]]]"





text \<open>One font in the three quoting styles of \<open>url()\<close>.\<close>

definition three_quotings_css :: string where
  "three_quotings_css =
     ''@font-face { src: url('' @ sq @ ''fonts/a.woff2'' @ sq @ ''), url('' @ dq
     @ ''fonts/a.woff2'' @ dq @ ''), url(fonts/a.woff2); }''"

text \<open>What the rewriter returns for the document \<^verbatim>\<open><p>x</p>\<close>, which has no head.\<close>

definition headless_page :: page_data where
  "headless_page =
     \<lparr>title = ''Wikipedia Article'', head_content = [], body_content = ''<p>x</p>'',
      offline = False\<rparr>"







definition bad_image_html :: string where
  "bad_image_html = ''(an image with the src ftp://[x)''"

definition bad_image_soup :: "node list" where
  "bad_image_soup = [Tag ''img'' [(''src'', ''ftp://[x'')] []]"

section \<open>Properties\<close>

subsection \<open>Exceptions and passes\<close>

lemma and_then_Inl [simp]: "and_then (Inl e) f = Inl e"
  by (simp add: and_then_def)

lemma and_then_Inr [simp]: "and_then (Inr x) f = f x"
  by (simp add: and_then_def)

lemma and_then_eq_Inr: "and_then m f = Inr y \<longleftrightarrow> (\<exists>x. m = Inr x \<and> f x = Inr y)"
  by (cases m) simp_all


lemma pass_Inr_member:
  "pass act ns = Inr out \<Longrightarrow> n \<in> set ns \<Longrightarrow>
   \<exists>xs. pass_node act n = Inr xs \<and> set xs \<subseteq> set out"
proof (induction ns arbitrary: out)
  case Nil
  then show ?case by simp
next
  case (Cons m ns)
  from Cons.prems(1) obtain xs ys where
    m: "pass_node act m = Inr xs" and r: "pass act ns = Inr ys" and o: "out = xs @ ys"
    by (auto split: sum.splits)
  show ?case
  proof (cases "n = m")
    case True
    then show ?thesis using m o by auto
  next
    case False
    then have "n \<in> set ns" using Cons.prems(2) by simp
    from Cons.IH[OF r this] show ?thesis using o by auto
  qed
qed

lemma pass_node_Tag_Inr:
  assumes "pass_node act (Tag nm as cs) = Inr xs"
  shows "(act (Tag nm as cs) = Inr (Some Decompose) \<and> xs = [])
       \<or> (\<exists>n. act (Tag nm as cs) = Inr (Some (ReplaceWith n)) \<and> xs = [n])
       \<or> (\<exists>as' cs'. act (Tag nm as cs) = Inr (Some (SetAttrs as')) \<and> pass act cs = Inr cs'
             \<and> xs = [Tag nm as' cs'])
       \<or> (\<exists>cs'. act (Tag nm as cs) = Inr None \<and> pass act cs = Inr cs' \<and> xs = [Tag nm as cs'])"
  using assms by (auto split: sum.splits option.splits action.splits)

lemma pass_Inl:
  "pass_node act n = Inl e \<Longrightarrow> \<exists>m. act m = Inl e"
  "pass act ns = Inl e \<Longrightarrow> \<exists>m. act m = Inl e"
proof (induction act n and act ns rule: pass_node_pass.induct)
  case (1 act nm as cs)
  then show ?case by (auto split: sum.splits option.splits action.splits)
next
  case (5 act n ns)
  then show ?case by (auto split: sum.splits)
qed simp_all

lemma pass_total:
  assumes "\<And>m. \<exists>a. act m = Inr a"
  shows "\<exists>out. pass act ns = Inr out"
proof (cases "pass act ns")
  case (Inl e)
  then show ?thesis using pass_Inl(2)[OF Inl] assms by (metis Inl_Inr_False)
next
  case (Inr out)
  then show ?thesis by blast
qed

text \<open>A tag that occurs below tags the pass keeps (changing at most their attributes) is
  passed itself, and what it becomes occurs in the result.\<close>

lemma occurs_pass:
  assumes "occurs ok k ns"
    and "pass act ns = Inr out"
    and anc: "keeps ok act"
  shows "\<exists>xs. pass_node act k = Inr xs \<and> (\<forall>k' \<in> set xs. occurs ok k' out)"
  using assms(1,2)
proof (induction arbitrary: out rule: occurs.induct)
  case (here ns)
  from pass_Inr_member[OF here(2,1)] obtain xs where
    "pass_node act k = Inr xs" "set xs \<subseteq> set out" by blast
  then show ?case by (auto intro: occurs.here)
next
  case (below nm as cs ns)
  from pass_Inr_member[OF below.prems below.hyps(1)] obtain ys where
    ys: "pass_node act (Tag nm as cs) = Inr ys" "set ys \<subseteq> set out" by blast
  from pass_node_Tag_Inr[OF ys(1)] anc below.hyps(2)
  obtain as' cs' where c: "pass act cs = Inr cs'" "ys = [Tag nm as' cs']" "ok (Tag nm as' cs')"
    unfolding keeps_def by fastforce
  from below.IH[OF c(1)] obtain xs where
    xs: "pass_node act k = Inr xs" "\<forall>k' \<in> set xs. occurs ok k' cs'" by blast
  have "Tag nm as' cs' \<in> set out" using ys(2) c(2) by simp
  then have "\<forall>k' \<in> set xs. occurs ok k' out"
    using c(3) xs(2) by (auto intro: occurs.below)
  then show ?case using xs(1) by blast
qed

subsection \<open>Anchors in the loops over the body\<close>

lemma occurs_pass_tag:
  assumes "occurs ok (Tag nm as cs) ns"
    and "pass act ns = Inr out"
    and "keeps ok act"
    and self: "(act (Tag nm as cs) = Inr None \<and> as' = as)
               \<or> act (Tag nm as cs) = Inr (Some (SetAttrs as'))"
  shows "\<exists>cs'. occurs ok (Tag nm as' cs') out"
proof -
  from occurs_pass[OF assms(1,2,3)] obtain xs where
    xs: "pass_node act (Tag nm as cs) = Inr xs" "\<forall>k' \<in> set xs. occurs ok k' out"
    by blast
  from pass_node_Tag_Inr[OF xs(1)] self obtain cs' where "xs = [Tag nm as' cs']"
    by auto
  then show ?thesis using xs(2) by auto
qed

lemma survives_Tag: "survives l (Tag n a c) \<Longrightarrow> survives l (Tag n a c')"
  by (simp add: survives_def is_edit_section_def is_unwanted_div_def is_navigation_def
      is_edit_bracket_def attr_has_token_def attr_is_def)

lemma survives_a: "survives l (Tag ''a'' a c)"
  by (simp add: survives_def is_edit_section_def is_unwanted_div_def is_navigation_def
      is_edit_bracket_def)

lemma survives_img: "survives l (Tag ''img'' a c)"
  by (simp add: survives_def is_edit_section_def is_unwanted_div_def is_navigation_def
      is_edit_bracket_def)

lemma keepsI:
  assumes "\<And>n a c r. ok (Tag n a c) \<Longrightarrow> act (Tag n a c) = Inr r \<Longrightarrow>
             r = None \<or> (\<exists>a'. r = Some (SetAttrs a') \<and> (\<forall>c'. ok (Tag n a' c')))"
    and "\<And>n a c c'. ok (Tag n a c) \<Longrightarrow> ok (Tag n a c')"
  shows "keeps ok act"
  unfolding keeps_def using assms by blast

lemma keeps_remove:
  assumes "\<And>n. survives l n \<Longrightarrow> \<not> p n"
  shows "keeps (survives l) (remove_action p)"
proof (rule keepsI)
  fix n a c r
  assume "survives l (Tag n a c)" "remove_action p (Tag n a c) = Inr r"
  then show "r = None \<or> (\<exists>a'. r = Some (SetAttrs a') \<and> (\<forall>c'. survives l (Tag n a' c')))"
    using assms[of "Tag n a c"] by (simp add: remove_action_def)
qed (rule survives_Tag)

lemma keeps_script: "keeps (survives l) (script_action l su)"
proof (rule keepsI)
  fix n a c r
  assume "survives l (Tag n a c)" "script_action l su (Tag n a c) = Inr r"
  then show "r = None \<or> (\<exists>a'. r = Some (SetAttrs a') \<and> (\<forall>c'. survives l (Tag n a' c')))"
    by (simp add: script_action_def survives_def)
qed (rule survives_Tag)

lemma keeps_link: "keeps (survives l) (link_action l su)"
proof (rule keepsI)
  fix n a c r
  assume "survives l (Tag n a c)" "link_action l su (Tag n a c) = Inr r"
  then show "r = None \<or> (\<exists>a'. r = Some (SetAttrs a') \<and> (\<forall>c'. survives l (Tag n a' c')))"
    by (auto simp: link_action_def survives_a split: if_splits option.splits sum.splits)
qed (rule survives_Tag)

lemma keeps_image: "keeps (survives l) (image_action l su)"
proof (rule keepsI)
  fix n a c r
  assume "survives l (Tag n a c)" "image_action l su (Tag n a c) = Inr r"
  then show "r = None \<or> (\<exists>a'. r = Some (SetAttrs a') \<and> (\<forall>c'. survives l (Tag n a' c')))"
    by (auto simp: image_action_def survives_img split: if_splits option.splits sum.splits)
qed (rule survives_Tag)

text \<open>An anchor that is below surviving tags goes through all the loops over the body; the
  loop over the links gives it the attributes \<open>rewrite_anchor\<close> returns.\<close>

lemma anchor_through_body:
  assumes "process_body_contents l su cs = Inr out"
    and "occurs (survives l) (Tag ''a'' as kids) cs"
    and "map_of as ''href'' = Some href"
  shows "\<exists>as' kids'. rewrite_anchor l su href as = Inr as'
           \<and> occurs (survives l) (Tag ''a'' as' kids') out"
proof -
  from assms(1) obtain cs1 cs2 cs3 cs4 cs5 cs6 cs7 where
    p1: "pass (remove_action (is_tag ''noscript'')) cs = Inr cs1" and
    p2: "pass (script_action l su) cs1 = Inr cs2" and
    p3: "pass (remove_action (is_edit_section l)) cs2 = Inr cs3" and
    p4: "pass (remove_action (is_unwanted_div l)) cs3 = Inr cs4" and
    p5: "pass (remove_action is_navigation) cs4 = Inr cs5" and
    p6: "pass (remove_action (is_edit_bracket l)) cs5 = Inr cs6" and
    p7: "pass (link_action l su) cs6 = Inr cs7" and
    p8: "pass (image_action l su) cs7 = Inr out"
    unfolding process_body_contents_def and_then_eq_Inr by blast
  have k: "keeps (survives l) (remove_action (is_tag ''noscript''))"
      "keeps (survives l) (remove_action (is_edit_section l))"
      "keeps (survives l) (remove_action (is_unwanted_div l))"
      "keeps (survives l) (remove_action is_navigation)"
      "keeps (survives l) (remove_action (is_edit_bracket l))"
    by (rule keeps_remove, simp add: survives_def)+
  have rm: "remove_action p (Tag ''a'' as k) = Inr None \<and> as = as
            \<or> remove_action p (Tag ''a'' as k) = Inr (Some (SetAttrs as))"
    if "\<not> p (Tag ''a'' as k)" for p k
    using that by (simp add: remove_action_def)
  have a: "\<not> is_tag ''noscript'' (Tag ''a'' as k)" "\<not> is_edit_section l (Tag ''a'' as k)"
      "\<not> is_unwanted_div l (Tag ''a'' as k)" "\<not> is_navigation (Tag ''a'' as k)"
      "\<not> is_edit_bracket l (Tag ''a'' as k)" for k
    by (simp_all add: is_edit_section_def is_unwanted_div_def is_navigation_def
        is_edit_bracket_def)
  from occurs_pass_tag[OF assms(2) p1 k(1) rm[where p = "is_tag ''noscript''", OF a(1)]]
  obtain k1 where o1: "occurs (survives l) (Tag ''a'' as k1) cs1"
    by blast
  have "script_action l su (Tag ''a'' as k1) = Inr None \<and> as = as
        \<or> script_action l su (Tag ''a'' as k1) = Inr (Some (SetAttrs as))"
    by (simp add: script_action_def)
  from occurs_pass_tag[OF o1 p2 keeps_script this]
  obtain k2 where o2: "occurs (survives l) (Tag ''a'' as k2) cs2"
    by blast
  from occurs_pass_tag[OF o2 p3 k(2) rm[where p = "is_edit_section l", OF a(2)]]
  obtain k3 where o3: "occurs (survives l) (Tag ''a'' as k3) cs3"
    by blast
  from occurs_pass_tag[OF o3 p4 k(3) rm[where p = "is_unwanted_div l", OF a(3)]]
  obtain k4 where o4: "occurs (survives l) (Tag ''a'' as k4) cs4"
    by blast
  from occurs_pass_tag[OF o4 p5 k(4) rm[where p = "is_navigation", OF a(4)]]
  obtain k5 where o5: "occurs (survives l) (Tag ''a'' as k5) cs5"
    by blast
  from occurs_pass_tag[OF o5 p6 k(5) rm[where p = "is_edit_bracket l", OF a(5)]]
  obtain k6 where o6: "occurs (survives l) (Tag ''a'' as k6) cs6"
    by blast
  from occurs_pass[OF o6 p7 keeps_link] obtain xs where
    xs: "pass_node (link_action l su) (Tag ''a'' as k6) = Inr xs"
        "\<forall>k' \<in> set xs. occurs (survives l) k' cs7"
    by blast
  from xs(1) assms(3) obtain as' where as': "rewrite_anchor l su href as = Inr as'"
    by (cases "rewrite_anchor l su href as") (simp_all add: link_action_def)
  then have "link_action l su (Tag ''a'' as k6) = Inr (Some (SetAttrs as'))"
    using assms(3) by (simp add: link_action_def)
  with pass_node_Tag_Inr[OF xs(1)] obtain k7 where "xs = [Tag ''a'' as' k7]"
    by auto
  then have o7: "occurs (survives l) (Tag ''a'' as' k7) cs7"
    using xs(2) by simp
  have "image_action l su (Tag ''a'' as' k7) = Inr None \<and> as' = as'
        \<or> image_action l su (Tag ''a'' as' k7) = Inr (Some (SetAttrs as'))"
    by (simp add: image_action_def)
  from occurs_pass_tag[OF o7 p8 keeps_image this]
  obtain k8 where "occurs (survives l) (Tag ''a'' as' k8) out"
    by blast
  then show ?thesis using as' by blast
qed

subsection \<open>What a run that returns has done\<close>

lemma process_Inr:
  assumes "process_wikipedia_html l fetch html su off = Inr r"
  shows "\<exists>hc soup1 out.
           rewrite_head l su (parse l html) = Inr (hc, soup1)
         \<and> process_body_contents l su (body_nodes soup1) = Inr out
         \<and> title r = extract_title l (parse l html)
         \<and> offline r = off
         \<and> (if off
            then embed_offline_resources l fetch hc (concat (map (to_str l) out)) =
                   Inr (head_content r, body_content r)
            else head_content r = hc \<and> body_content r = concat (map (to_str l) out))"
proof -
  have 1: "and_then (rewrite_head l su (parse l html)) (\<lambda>(head_content0, soup1).
         and_then (rewrite_body l su soup1) (\<lambda>body_content0.
         and_then (if off then embed_offline_resources l fetch head_content0 body_content0
                   else Inr (head_content0, body_content0)) (\<lambda>(head_content1, body_content1).
         Inr \<lparr>title = extract_title l (parse l html), head_content = head_content1,
              body_content = body_content1, offline = off\<rparr>))) = Inr r"
    using assms by (simp add: process_wikipedia_html_def Let_def)
  then obtain hs where hs: "rewrite_head l su (parse l html) = Inr hs"
    unfolding and_then_eq_Inr by blast
  obtain hc soup1 where p: "hs = (hc, soup1)" by (cases hs)
  have 2: "and_then (rewrite_body l su soup1) (\<lambda>body_content0.
         and_then (if off then embed_offline_resources l fetch hc body_content0
                   else Inr (hc, body_content0)) (\<lambda>(head_content1, body_content1).
         Inr \<lparr>title = extract_title l (parse l html), head_content = head_content1,
              body_content = body_content1, offline = off\<rparr>)) = Inr r"
    using 1 hs p by simp
  then obtain bc where bc: "rewrite_body l su soup1 = Inr bc"
    unfolding and_then_eq_Inr by blast
  then obtain out where out: "process_body_contents l su (body_nodes soup1) = Inr out"
      "bc = concat (map (to_str l) out)"
    unfolding rewrite_body_def and_then_eq_Inr by auto
  have 3: "and_then (if off then embed_offline_resources l fetch hc bc else Inr (hc, bc))
         (\<lambda>(head_content1, body_content1).
         Inr \<lparr>title = extract_title l (parse l html), head_content = head_content1,
              body_content = body_content1, offline = off\<rparr>) = Inr r"
    using 2 bc by simp
  then obtain e where
    e: "(if off then embed_offline_resources l fetch hc bc else Inr (hc, bc)) = Inr e"
       "r = \<lparr>title = extract_title l (parse l html), head_content = fst e,
             body_content = snd e, offline = off\<rparr>"
    unfolding and_then_eq_Inr by (auto simp: case_prod_beta)
  show ?thesis
    using hs p out e by (cases off) auto
qed

subsection \<open>Substrings, and the text of a tag in the text of a tree\<close>

lemma contains_iff: "contains sub s \<longleftrightarrow> (\<exists>pre post. s = pre @ sub @ post)"
proof (induction s)
  case Nil
  then show ?case by auto
next
  case (Cons c cs)
  show ?case
  proof
    assume "contains sub (c # cs)"
    then consider "prefix sub (c # cs)" | "contains sub cs" by auto
    then show "\<exists>pre post. c # cs = pre @ sub @ post"
    proof cases
      case 1
      then obtain post where "c # cs = sub @ post" by (auto simp: prefix_def)
      then have "c # cs = [] @ sub @ post" by simp
      then show ?thesis by blast
    next
      case 2
      then obtain pre post where "cs = pre @ sub @ post" using Cons.IH by auto
      then have "c # cs = (c # pre) @ sub @ post" by simp
      then show ?thesis by blast
    qed
  next
    assume "\<exists>pre post. c # cs = pre @ sub @ post"
    then obtain pre post where e: "c # cs = pre @ sub @ post" by auto
    show "contains sub (c # cs)"
    proof (cases pre)
      case Nil
      then have "prefix sub (c # cs)" using e by (simp add: prefix_def)
      then show ?thesis by simp
    next
      case (Cons a pre')
      then have "cs = pre' @ sub @ post" using e by simp
      then have "contains sub cs" using Cons.IH by blast
      then show ?thesis by simp
    qed
  qed
qed

lemma contains_part: "contains (a @ b) s \<Longrightarrow> contains a s"
proof -
  assume "contains (a @ b) s"
  then obtain pre post where "s = pre @ (a @ b) @ post" by (auto simp: contains_iff)
  then have "s = pre @ a @ (b @ post)" by simp
  then show ?thesis unfolding contains_iff by blast
qed

lemma contains_refl: "contains s s"
  unfolding contains_iff by (metis append_Nil append_Nil2)

lemma contains_inside: "contains sub s \<Longrightarrow> contains sub (pre @ s @ post)"
proof -
  assume "contains sub s"
  then obtain a b where "s = a @ sub @ b" by (auto simp: contains_iff)
  then have "pre @ s @ post = (pre @ a) @ sub @ (b @ post)" by simp
  then show ?thesis unfolding contains_iff by blast
qed

lemma contains_concat:
  assumes "x \<in> set xs" and "contains sub (g x)"
  shows "contains sub (concat (map g xs))"
proof -
  from assms(1) obtain ys zs where "xs = ys @ x # zs" by (auto simp: in_set_conv_decomp)
  then have "concat (map g xs) = concat (map g ys) @ g x @ concat (map g zs)" by simp
  then show ?thesis using contains_inside[OF assms(2)] by simp
qed

text \<open>The text of a tag that occurs in a forest is part of the text of the forest, however
  the strings at the top of the forest are written.\<close>

lemma occurs_contains:
  assumes "occurs ok (Tag nm as cs) ns"
    and "\<And>n a k. g (Tag n a k) = to_str l (Tag n a k)"
  shows "contains (to_str l (Tag nm as cs)) (concat (map g ns))"
  using assms
proof (induction arbitrary: g rule: occurs.induct)
  case (here ns)
  have "contains (to_str l (Tag nm as cs)) (g (Tag nm as cs))"
    by (simp only: here(2) contains_refl)
  with here(1) show ?case by (rule contains_concat)
next
  case (below n a c ns)
  let ?g = "\<lambda>x. case x of Tag n' a' k' \<Rightarrow> to_str l x | _ \<Rightarrow> output_ready l n x"
  have "contains (to_str l (Tag nm as cs)) (concat (map ?g c))"
    by (rule below.IH) simp
  then have "contains (to_str l (Tag nm as cs)) (to_str l (Tag n a c))"
    using contains_inside by simp
  then have "contains (to_str l (Tag nm as cs)) (g (Tag n a c))"
    by (simp only: below.prems)
  with below.hyps(1) show ?case by (rule contains_concat)
qed


lemma occurs_contains_soup:
  "occurs ok (Tag nm as cs) ns \<Longrightarrow> contains (to_str l (Tag nm as cs)) (decode_soup l ns)"
  unfolding decode_soup_def by (erule occurs_contains, simp)

subsection \<open>Links of the body\<close>

lemmas run_defs =
  process_wikipedia_html_def Let_def example_lib_def extract_title_def find_def find_all_def
  descendants_def rewrite_head_def rewrite_body_def body_nodes_def process_body_contents_def
  remove_action_def script_action_def link_action_def image_action_def rewrite_anchor_def
  mark_boundary_def attr_has_token_def attr_is_def is_edit_section_def is_unwanted_div_def
  is_navigation_def is_edit_bracket_def startswith_def is_space_def no_network_def



text \<open>A run of the rewriter on three anchors that stay.\<close>

lemma links_run:
  "process_wikipedia_html (example_lib [(links_html, links_soup)]) no_network links_html
     ''https://en.wikipedia.org'' False =
   Inr \<lparr>title = ''Wikipedia Article'', head_content = [],
        body_content =
          ''<div class='' @ dq @ ''mw-body content'' @ dq @ ''>''
          @ ''<a data-boundary-url='' @ dq @ ''https://en.wikipedia.org/wiki/Foo'' @ dq
          @ '' onclick='' @ dq @ ''showBoundaryWarning('' @ sq
          @ ''https://en.wikipedia.org/wiki/Foo'' @ sq @ '', '' @ sq @ ''wikipedia'' @ sq
          @ ''); return false;'' @ dq @ ''>Foo</a>''
          @ ''<a data-boundary-url='' @ dq @ ''https://example.com/x'' @ dq
          @ '' onclick='' @ dq @ ''showBoundaryWarning('' @ sq
          @ ''https://example.com/x'' @ sq @ '', '' @ sq @ ''external'' @ sq
          @ ''); return false;'' @ dq @ ''>x</a>''
          @ ''<a href='' @ dq @ ''httpfoo.html'' @ dq @ ''>h</a></div>'',
        offline = False\<rparr>"
  by (simp add: run_defs links_soup_def sq_def dq_def)

lemma links_head:
  "rewrite_head (example_lib [(links_html, links_soup)]) ''https://en.wikipedia.org''
     (parse (example_lib [(links_html, links_soup)]) links_html) = Inr ([], links_soup)"
  by (simp add: rewrite_head_def example_lib_def find_def find_all_def descendants_def
      links_soup_def)

lemma occurs_child:
  assumes "Tag nm as cs \<in> set ns" and "ok (Tag nm as cs)" and "n \<in> set cs"
  shows "occurs ok n ns"
  using assms(1,2) occurs.here[OF assms(3)] by (rule occurs.below)

lemma links_occur:
  assumes "n \<in> set [Tag ''a'' [(''href'', ''/wiki/Foo'')] [NavigableString ''Foo''],
            Tag ''a'' [(''href'', ''//example.com/x'')] [NavigableString ''x''],
            Tag ''a'' [(''href'', ''httpfoo.html'')] [NavigableString ''h'']]"
  shows "occurs (survives (example_lib [(links_html, links_soup)])) n (body_nodes links_soup)"
proof -
  have b: "body_nodes links_soup =
     [Tag ''div'' [(''class'', ''mw-body content'')]
           [Tag ''a'' [(''href'', ''/wiki/Foo'')] [NavigableString ''Foo''],
            Tag ''a'' [(''href'', ''//example.com/x'')] [NavigableString ''x''],
            Tag ''a'' [(''href'', ''httpfoo.html'')] [NavigableString ''h'']]]"
    by (simp add: body_nodes_def find_def find_all_def descendants_def links_soup_def)
  have s: "survives (example_lib [(links_html, links_soup)])
     (Tag ''div'' [(''class'', ''mw-body content'')]
           [Tag ''a'' [(''href'', ''/wiki/Foo'')] [NavigableString ''Foo''],
            Tag ''a'' [(''href'', ''//example.com/x'')] [NavigableString ''x''],
            Tag ''a'' [(''href'', ''httpfoo.html'')] [NavigableString ''h'']])"
    by (simp add: survives_def is_edit_section_def is_unwanted_div_def is_navigation_def
        is_edit_bracket_def attr_has_token_def attr_is_def example_lib_def is_space_def)
  show ?thesis
    unfolding b using _ s assms by (rule occurs_child) simp
qed







lemma anchor_through_last_loops:
  assumes "map_of as ''href'' = Some href"
    and "rewrite_anchor l su href as = Inr as'"
  shows "and_then (pass (link_action l su) [Tag ''a'' as cs]) (pass (image_action l su)) =
         and_then (pass (link_action l su) cs) (\<lambda>cs1.
         and_then (pass (image_action l su) cs1) (\<lambda>cs2.
         Inr [Tag ''a'' as' cs2]))"
proof -
  have 1: "link_action l su (Tag ''a'' as cs) = Inr (Some (SetAttrs as'))"
    using assms by (simp add: link_action_def)
  have 2: "image_action l su (Tag ''a'' as' cs1) = Inr None" for cs1
    by (simp add: image_action_def)
  show ?thesis
  proof (cases "pass (link_action l su) cs")
    case (Inl e)
    then show ?thesis using 1 by simp
  next
    case (Inr cs1)
    then show ?thesis using 1 2 by (cases "pass (image_action l su) cs1") simp_all
  qed
qed

text \<open>
  Claim C9. An anchor whose \<open>href\<close> begins with \<open>http\<close> but with neither \<open>http://\<close> nor
  \<open>https://\<close> (such as \<open>httpfoo.html\<close>) keeps all its attributes: the \<open>href\<close> is not
  removed, no marker is added, and the URL is not joined to the source URL. This holds of
  the body of the loop over the links, of that loop and the loop over the images after it,
  and of the rewriter as a whole for an anchor it keeps.
\<close>

theorem http_prefixed_relative_link_unchanged:
  assumes "map_of as ''href'' = Some href"
    and "startswith href ''http''"
    and "\<not> startswith href ''http://''" and "\<not> startswith href ''https://''"
  shows "rewrite_anchor l su href as = Inr as
         \<and> and_then (pass (link_action l su) [Tag ''a'' as cs]) (pass (image_action l su)) =
           and_then (pass (link_action l su) cs) (\<lambda>cs1.
           and_then (pass (image_action l su) cs1) (\<lambda>cs2.
           Inr [Tag ''a'' as cs2]))
         \<and> (\<forall>fetch html off r hc soup1 kids.
              process_wikipedia_html l fetch html su off = Inr r
              \<and> rewrite_head l su (parse l html) = Inr (hc, soup1)
              \<and> occurs (survives l) (Tag ''a'' as kids) (body_nodes soup1)
              \<longrightarrow> (\<exists>out kids'.
                     process_body_contents l su (body_nodes soup1) = Inr out
                   \<and> occurs (survives l) (Tag ''a'' as kids') out))"
proof -
  have a: "\<not> startswith href ''#''" "\<not> startswith href ''/wiki/''" "\<not> startswith href ''//''"
    using assms(2) by (auto simp: startswith_def prefix_def)
  have r: "rewrite_anchor l su href as = Inr as"
    using assms a by (simp add: rewrite_anchor_def)
  have w: "\<exists>out kids'. process_body_contents l su (body_nodes soup1) = Inr out
                   \<and> occurs (survives l) (Tag ''a'' as kids') out"
    if "process_wikipedia_html l fetch html su off = Inr r'"
      and "rewrite_head l su (parse l html) = Inr (hc, soup1)"
      and "occurs (survives l) (Tag ''a'' as kids) (body_nodes soup1)"
    for fetch html off r' hc soup1 kids
  proof -
    from process_Inr[OF that(1)] that(2) obtain out where
      out: "process_body_contents l su (body_nodes soup1) = Inr out"
      by auto
    from anchor_through_body[OF out that(3) assms(1)] r show ?thesis
      using out by auto
  qed
  show ?thesis
    using r anchor_through_last_loops[OF assms(1) r] w by blast
qed

theorem http_prefixed_relative_link_unchanged_witness:
  "map_of [(''href'', ''httpfoo.html'')] ''href'' = Some ''httpfoo.html''
   \<and> startswith ''httpfoo.html'' ''http''
   \<and> \<not> startswith ''httpfoo.html'' ''http://''
   \<and> \<not> startswith ''httpfoo.html'' ''https://''
   \<and> rewrite_anchor (example_lib [(links_html, links_soup)]) ''https://en.wikipedia.org''
        ''httpfoo.html'' [(''href'', ''httpfoo.html'')] = Inr [(''href'', ''httpfoo.html'')]
   \<and> and_then (pass (link_action (example_lib [(links_html, links_soup)])
                        ''https://en.wikipedia.org'')
                  [Tag ''a'' [(''href'', ''httpfoo.html'')] []])
        (pass (image_action (example_lib [(links_html, links_soup)])
                 ''https://en.wikipedia.org'')) =
      Inr [Tag ''a'' [(''href'', ''httpfoo.html'')] []]
   \<and> rewrite_head (example_lib [(links_html, links_soup)]) ''https://en.wikipedia.org''
        (parse (example_lib [(links_html, links_soup)]) links_html) = Inr ([], links_soup)
   \<and> occurs (survives (example_lib [(links_html, links_soup)]))
        (Tag ''a'' [(''href'', ''httpfoo.html'')] [NavigableString ''h''])
        (body_nodes links_soup)
   \<and> (\<exists>out kids'.
         process_body_contents (example_lib [(links_html, links_soup)])
           ''https://en.wikipedia.org'' (body_nodes links_soup) = Inr out
         \<and> occurs (survives (example_lib [(links_html, links_soup)]))
             (Tag ''a'' [(''href'', ''httpfoo.html'')] kids') out)"
proof -
  let ?l = "example_lib [(links_html, links_soup)]"
  have h1: "map_of [(''href'', ''httpfoo.html'')] ''href'' = Some ''httpfoo.html''"
    by simp
  have h2: "startswith ''httpfoo.html'' ''http''"
    by (simp add: startswith_def)
  have h3: "\<not> startswith ''httpfoo.html'' ''http://''"
    by (simp add: startswith_def)
  have h4: "\<not> startswith ''httpfoo.html'' ''https://''"
    by (simp add: startswith_def)
  have o: "occurs (survives ?l)
        (Tag ''a'' [(''href'', ''httpfoo.html'')] [NavigableString ''h''])
        (body_nodes links_soup)"
    by (rule links_occur) simp
  note t = http_prefixed_relative_link_unchanged
             [OF h1 h2 h3 h4, of ?l "''https://en.wikipedia.org''" "[]"]
  from t have 1: "rewrite_anchor ?l ''https://en.wikipedia.org''
        ''httpfoo.html'' [(''href'', ''httpfoo.html'')] = Inr [(''href'', ''httpfoo.html'')]"
    by blast
  from t have 2: "and_then (pass (link_action ?l ''https://en.wikipedia.org'')
                  [Tag ''a'' [(''href'', ''httpfoo.html'')] []])
        (pass (image_action ?l ''https://en.wikipedia.org'')) =
      Inr [Tag ''a'' [(''href'', ''httpfoo.html'')] []]"
    by simp
  from t links_run links_head o
  have 3: "\<exists>out kids'.
         process_body_contents ?l ''https://en.wikipedia.org'' (body_nodes links_soup) = Inr out
         \<and> occurs (survives ?l) (Tag ''a'' [(''href'', ''httpfoo.html'')] kids') out"
    by blast
  show ?thesis
    using h1 h2 h3 h4 1 2 links_head o 3 by blast
qed


subsection \<open>Links of the head\<close>

text \<open>
  Claim C4. The claim is that a link of the head whose \<open>href\<close> begins with \<open>//\<close> gets
  \<open>https:\<close> in front of it. The program tests for \<open>/\<close> first, in both loops over the links,
  so such an \<open>href\<close> gets \<open>https://en.wikipedia.org\<close> in front of it instead. The loops over
  the images and over the anchors of the body test for \<open>//\<close> and add \<open>https:\<close>.
\<close>

theorem head_scheme_relative_link:
  "process_head l source_url
     (Tag ''head'' []
        [Tag ''link'' [(''rel'', ''stylesheet''), (''href'', ''//upload.wikimedia.org/s.css'')] [],
         Tag ''link'' [(''rel'', ''dns-prefetch''), (''href'', ''//meta.wikimedia.org'')] []]) =
   Inr (Tag ''head'' []
     [Tag ''link'' [(''rel'', ''stylesheet''),
                    (''href'', ''https://en.wikipedia.org//upload.wikimedia.org/s.css'')] [],
      Tag ''link'' [(''rel'', ''dns-prefetch''),
                    (''href'', ''https://en.wikipedia.org//meta.wikimedia.org'')] []])"
  by (simp add: process_head_contents_def head_stylesheet_action_def
      head_link_action_def head_script_action_def set_absolute_def make_absolute_def
      is_stylesheet_link_def startswith_def)

subsection \<open>Fonts\<close>

lemma no_font_url_found: "findall_font_urls three_quotings_css = []"
  by (simp add: three_quotings_css_def findall_font_urls_def font_url_pattern_def took_def
      sq_def dq_def)

lemma embed_fonts_Nil: "embed_fonts l fetch [] = Inr (False, [])"
  by (simp add: embed_fonts_def findall_font_urls_def)

text \<open>
  What \<open>match_items\<close> returns fits the pattern item by item. So every URL the pattern finds
  ends in a dot, one of \<open>w\<close>, \<open>o\<close>, \<open>t\<close>, then \<open>f\<close>, then nothing or one of \<open>f\<close>, \<open>2\<close>; none
  ends in \<open>.woff2\<close>, \<open>.woff\<close>, \<open>.ttf\<close> or \<open>.otf\<close>, and the media type of each is the default.
\<close>

lemma match_items_sound:
  "match_items its s = Some (gs, r) \<Longrightarrow>
   list_all2 (\<lambda>it g. (\<forall>x \<in> set g. accepts (fst it) x)
                  \<and> (snd it = Once \<longrightarrow> length g = 1)
                  \<and> (snd it = Opt \<longrightarrow> length g \<le> 1)
                  \<and> (snd it = Plus \<longrightarrow> g \<noteq> [])) its gs"
proof (induction its s arbitrary: gs r rule: match_items.induct)
  case (1 s)
  then show ?case by simp
next
  case (2 c q its)
  then show ?case by (auto simp: took_def split: if_splits)
next
  case (3 c its x xs)
  then show ?case by (auto simp: took_def split: if_splits)
next
  case (4 c its x xs)
  then show ?case by (auto simp: took_def split: if_splits option.splits)
next
  case (5 c its x xs)
  then show ?case
    by (auto simp: took_def split: if_splits option.splits list.splits prod.splits)
qed

lemma font_url_shape:
  assumes "match_items font_url_pattern s = Some (gs, r)"
  shows "\<exists>g x t. concat (take 5 (drop 5 gs)) = g @ [CHR ''.'', x, CHR ''f''] @ t
           \<and> x \<in> set ''wot'' \<and> (t = [] \<or> t = ''f'' \<or> t = ''2'')"
proof -
  from match_items_sound[OF assms]
  obtain g0 g1 g2 g3 g4 g5 g6 g7 g8 g9 g10 g11 where
    gs: "gs = [g0, g1, g2, g3, g4, g5, g6, g7, g8, g9, g10, g11]"
    and 6: "length g6 = 1" "\<forall>x \<in> set g6. x = CHR ''.''"
    and 7: "length g7 = 1" "\<forall>x \<in> set g7. x \<in> set ''wot''"
    and 8: "length g8 = 1" "\<forall>x \<in> set g8. x = CHR ''f''"
    and 9: "length g9 \<le> 1" "\<forall>x \<in> set g9. x \<in> set ''f2''"
    unfolding font_url_pattern_def by (auto simp: list_all2_Cons1)
  from 6 have g6: "g6 = ''.''" by (cases g6) auto
  from 7 obtain x where g7: "g7 = [x]" "x \<in> set ''wot''" by (cases g7) auto
  from 8 have g8: "g8 = ''f''" by (cases g8) auto
  from 9 have g9: "g9 = [] \<or> g9 = ''f'' \<or> g9 = ''2''"
    by (cases g9) auto
  have "concat (take 5 (drop 5 gs)) = g5 @ [CHR ''.'', x, CHR ''f''] @ g9"
    by (simp add: gs g6 g7 g8)
  then show ?thesis using g7(2) g9 by blast
qed

lemma findall_from_matches:
  "u \<in> set (findall_from k s) \<Longrightarrow>
   \<exists>s' gs r. match_items font_url_pattern s' = Some (gs, r) \<and> u = concat (take 5 (drop 5 gs))"
proof (induction k s rule: findall_from.induct)
  case (1 k)
  then show ?case by simp
next
  case (2 k c cs)
  then show ?case by simp
next
  case (3 c cs)
  show ?case
  proof (cases "match_items font_url_pattern (c # cs)")
    case None
    then show ?thesis using 3 by simp
  next
    case (Some a)
    obtain gs r where a: "a = (gs, r)" by (cases a)
    show ?thesis
    proof (cases "u = concat (take 5 (drop 5 gs))")
      case True
      then show ?thesis using Some a by blast
    next
      case False
      then have "u \<in> set (findall_from (length (concat gs) - 1) cs)"
        using "3.prems" Some a by simp
      then show ?thesis by (rule "3.IH"(2)[OF Some a[symmetric]])
    qed
  qed
qed

lemma found_font_url_extension:
  assumes "u \<in> set (findall_font_urls css_content)"
  shows "\<not> endswith u ''.woff2'' \<and> \<not> endswith u ''.woff''
         \<and> \<not> endswith u ''.ttf'' \<and> \<not> endswith u ''.otf''"
proof -
  from assms obtain s' gs r where
    m: "match_items font_url_pattern s' = Some (gs, r)" and u: "u = concat (take 5 (drop 5 gs))"
    unfolding findall_font_urls_def using findall_from_matches by blast
  from font_url_shape[OF m] u obtain g x t where
    s: "u = g @ [CHR ''.'', x, CHR ''f''] @ t" "x \<in> set ''wot''" "t = [] \<or> t = ''f'' \<or> t = ''2''"
    by auto
  from s(3) show ?thesis
    unfolding endswith_def suffix_to_prefix s(1) by auto
qed

lemma found_font_media_type:
  "u \<in> set (findall_font_urls css_content) \<Longrightarrow> font_media_type u = ''font/woff''"
  using found_font_url_extension[of u css_content] by (simp add: font_media_type_def)
text \<open>
  Claim C3. The claim is that the three occurrences of a font URL ending in \<open>.woff2\<close> are
  replaced by the data URI when the font can be fetched. The pattern of the program asks for
  a dot, one of \<open>w\<close>, \<open>o\<close>, \<open>t\<close>, then \<open>f\<close>, then at most one of \<open>f\<close>, \<open>2\<close>, right before the
  closing of \<open>url()\<close>: it finds no URL that ends in \<open>.woff2\<close>, \<open>.woff\<close>, \<open>.ttf\<close> or \<open>.otf\<close>.
  Nothing is fetched and the text of the \<open>style\<close> element stays as it is, whatever the
  network returns, be the text a string of the parser or one the embedder has put in.
\<close>

theorem real_font_urls_not_embedded:
  "findall_font_urls three_quotings_css = []
   \<and> embed_fonts l fetch three_quotings_css = Inr (False, three_quotings_css)
   \<and> embed_head l fetch [Tag ''style'' [] [NavigableString three_quotings_css]] =
       Inr [Tag ''style'' [] [NavigableString three_quotings_css]]
   \<and> embed_head l fetch [Tag ''style'' [] [SubclassString three_quotings_css]] =
       Inr [Tag ''style'' [] [SubclassString three_quotings_css]]"
proof -
  have "three_quotings_css \<noteq> []"
    by (simp add: three_quotings_css_def)
  then show ?thesis
    by (simp add: embed_head_def embed_stylesheet_action_def is_stylesheet_link_def
        font_action_def embed_fonts_def no_font_url_found)
qed

subsection \<open>The network\<close>

text \<open>
  Claim C10. Without the offline flag what the rewriter returns, a record or the exception,
  does not depend on the network: it is a function of the document and the source URL (and
  of the library). The final document is a function of the record alone.
\<close>

theorem offline_false_independent_of_network:
  "process_wikipedia_html l fetch html_content source_url False =
     process_wikipedia_html l fetch' html_content source_url False
   \<and> map_sum (\<lambda>e. e) generate_html
       (process_wikipedia_html l fetch html_content source_url False) =
     map_sum (\<lambda>e. e) generate_html
       (process_wikipedia_html l fetch' html_content source_url False)"
  by (simp add: process_wikipedia_html_def)

subsection \<open>The assembled document\<close>

lemma boundary_css_start: "\<exists>r. boundary_css = ''    <style>'' @ r"
  by (simp add: boundary_css_def)

lemma headless_page_no_style:
  "\<not> contains ''    <style>'' (generate_html headless_page)"
  by (simp add: headless_page_def generate_html_def str_replace_def boundary_modal_def
      sq_def dq_def)

text \<open>
  Claim C5. The claim is that the final document holds the stylesheet, the modal and the
  script for every record, also for one with an empty head fragment. The stylesheet is put
  in by replacing \<^verbatim>\<open></head>\<close> in the head fragment; an empty head fragment has no
  \<^verbatim>\<open></head>\<close>, and the document made from it has the modal and the script but not the
  stylesheet.
\<close>

theorem headless_page_lacks_stylesheet:
  "contains boundary_modal (generate_html headless_page)
   \<and> \<not> contains boundary_css (generate_html headless_page)"
proof
  have "generate_html headless_page =
      (''<!DOCTYPE html>\<newline><html lang='' @ dq @ ''en'' @ dq @ ''>\<newline>''
         @ str_replace [] ''</head>'' (boundary_css @ ''</head>'') @ ''\<newline><body>\<newline>''
         @ ''<p>x</p>'') @ boundary_modal @ ''</body>\<newline></html>\<newline>''"
    by (simp add: generate_html_def headless_page_def)
  then show "contains boundary_modal (generate_html headless_page)"
    unfolding contains_iff by blast
next
  show "\<not> contains boundary_css (generate_html headless_page)"
  proof
    assume "contains boundary_css (generate_html headless_page)"
    then have "contains ''    <style>'' (generate_html headless_page)"
      using boundary_css_start contains_part by metis
    then show False
      using headless_page_no_style by simp
  qed
qed

subsection \<open>Where an exception comes from\<close>



















subsection \<open>Title\<close>










end
